theory Spec2Isabelle
  imports Complex_Main
begin

section \<open>IGA user synchronisation: the retrieval, normalisation and scoring core\<close>

text \<open>
  The development embeds \<^verbatim>\<open>iga_user_sync.py\<close>: the transport client
  (\<^verbatim>\<open>_make_request\<close>), the record normaliser (\<^verbatim>\<open>_parse_user_data\<close>), the risk
  scorer (\<^verbatim>\<open>_calculate_risk_score\<close>), the retrieval loop (\<^verbatim>\<open>retrieve_all_users\<close>)
  and the query helper \<^verbatim>\<open>get_privileged_users\<close>.

  Python values are dynamically typed, so a raw record is a JSON value and every field of a
  normalised user that the code copies from the record stays a JSON value. Exceptions are
  values of the type \<open>error\<close>; a function that may raise returns \<open>error + 'a\<close>.
  What the program reads from outside (the network, the clock, library functions whose
  text is not part of the repository) is a parameter: the record \<open>world\<close> and the fields
  \<open>net\<close> and \<open>ticks\<close> of the state.
\<close>

subsection \<open>JSON values and the Python primitives the code applies to them\<close>

text \<open>
  What \<^verbatim>\<open>response.json()\<close> returns. An object is an association list standing for a
  dict (its keys are pairwise distinct); a lookup takes the binding \<open>map_of\<close> finds.
  A float is the rational number it denotes. Strings are sequences of ASCII characters.
\<close>

datatype json =
    JNull
  | JBool bool
  | JInt int
  | JFloat rat
  | JStr string
  | JList "json list"
  | JObj "(string \<times> json) list"

datatype error =
    Timeout
  | ConnectionError
  | HTTPError nat
  | JSONDecodeError
  | RetriesExhausted
  | ValueError
  | AttributeError
  | TypeError
  | ZeroDivisionError
  | OverflowError

text \<open>
  The exceptions of \<^verbatim>\<open>requests\<close> that derive from \<^verbatim>\<open>requests.RequestException\<close>.
  \<open>RetriesExhausted\<close> is the \<^verbatim>\<open>RequestException\<close> that \<^verbatim>\<open>_make_request\<close> raises
  itself once its loop is over.
\<close>

fun is_request_exception :: "error \<Rightarrow> bool" where
  "is_request_exception Timeout = True"
| "is_request_exception ConnectionError = True"
| "is_request_exception (HTTPError c) = True"
| "is_request_exception JSONDecodeError = True"
| "is_request_exception RetriesExhausted = True"
| "is_request_exception e = False"

text \<open>Truth value testing, as \<^verbatim>\<open>if x\<close>, \<^verbatim>\<open>not x\<close> and \<^verbatim>\<open>x or y\<close> do it.\<close>

fun truthy :: "json \<Rightarrow> bool" where
  "truthy JNull = False"
| "truthy (JBool b) = b"
| "truthy (JInt n) = (n \<noteq> 0)"
| "truthy (JFloat q) = (q \<noteq> 0)"
| "truthy (JStr s) = (s \<noteq> [])"
| "truthy (JList xs) = (xs \<noteq> [])"
| "truthy (JObj kvs) = (kvs \<noteq> [])"

definition py_or :: "json \<Rightarrow> json \<Rightarrow> json" where
  "py_or a b = (if truthy a then a else b)"

text \<open>\<^verbatim>\<open>d.get(k)\<close> and \<^verbatim>\<open>d.get(k, default)\<close> on a dict.\<close>

definition get :: "(string \<times> json) list \<Rightarrow> string \<Rightarrow> json" where
  "get d k = (case map_of d k of None \<Rightarrow> JNull | Some v \<Rightarrow> v)"

definition get_default :: "(string \<times> json) list \<Rightarrow> string \<Rightarrow> json \<Rightarrow> json" where
  "get_default d k dflt = (case map_of d k of None \<Rightarrow> dflt | Some v \<Rightarrow> v)"

text \<open>\<^verbatim>\<open>str.upper()\<close>, \<^verbatim>\<open>str.lower()\<close>, \<^verbatim>\<open>str.strip()\<close> and \<^verbatim>\<open>k in s\<close> on ASCII strings.\<close>

definition lower_letters :: string where
  "lower_letters = ''abcdefghijklmnopqrstuvwxyz''"

definition upper_letters :: string where
  "upper_letters = ''ABCDEFGHIJKLMNOPQRSTUVWXYZ''"

definition lower_char :: "char \<Rightarrow> char" where
  "lower_char c = (case map_of (zip upper_letters lower_letters) c of None \<Rightarrow> c | Some l \<Rightarrow> l)"

definition upper_char :: "char \<Rightarrow> char" where
  "upper_char c = (case map_of (zip lower_letters upper_letters) c of None \<Rightarrow> c | Some u \<Rightarrow> u)"

definition lower :: "string \<Rightarrow> string" where
  "lower s = map lower_char s"

definition upper :: "string \<Rightarrow> string" where
  "upper s = map upper_char s"

definition is_space :: "char \<Rightarrow> bool" where
  "is_space c = (c \<in> set [CHR '' '', CHR 0x09, CHR 0x0A, CHR 0x0B, CHR 0x0C, CHR 0x0D,
                           CHR 0x1C, CHR 0x1D, CHR 0x1E, CHR 0x1F])"

definition strip :: "string \<Rightarrow> string" where
  "strip s = rev (dropWhile is_space (rev (dropWhile is_space s)))"

fun starts_with :: "string \<Rightarrow> string \<Rightarrow> bool" where
  "starts_with [] s = True"
| "starts_with (k # ks) [] = False"
| "starts_with (k # ks) (c # cs) = (k = c \<and> starts_with ks cs)"

fun contains :: "string \<Rightarrow> string \<Rightarrow> bool" where
  "contains k [] = (k = [])"
| "contains k (c # cs) = (starts_with k (c # cs) \<or> contains k cs)"

text \<open>\<^verbatim>\<open>s.replace('Z', '+00:00')\<close>: every occurrence is replaced.\<close>

definition replace_Z :: "string \<Rightarrow> string" where
  "replace_Z s = concat (map (\<lambda>c. if c = CHR ''Z'' then ''+00:00'' else [c]) s)"

text \<open>Decimal digits of a number, for \<^verbatim>\<open>str\<close> of an \<^verbatim>\<open>int\<close>.\<close>

fun digits :: "nat \<Rightarrow> string" where
  "digits n = (if n < 10 then [char_of (48 + n)]
               else digits (n div 10) @ [char_of (48 + n mod 10)])"

definition str_int :: "int \<Rightarrow> string" where
  "str_int i = (if i < 0 then CHR ''-'' # digits (nat (- i)) else digits (nat i))"

subsection \<open>The world outside the program\<close>

text \<open>
  \<^item> \<open>fromisoformat s\<close> is what \<^verbatim>\<open>datetime.fromisoformat(s).replace(tzinfo=None)\<close> gives:
    \<open>None\<close> when the library raises \<^verbatim>\<open>ValueError\<close>, otherwise the wall-clock time it
    read, in microseconds (the offset is dropped, not applied).
  \<^item> \<open>clock n\<close> is what the \<open>n\<close>-th call of \<^verbatim>\<open>datetime.now()\<close> returns, in microseconds.
  \<^item> \<open>py_repr v\<close> is \<^verbatim>\<open>str(v)\<close> for a float, a list or a dict.
\<close>

record world =
  fromisoformat :: "string \<Rightarrow> int option"
  clock :: "nat \<Rightarrow> int"
  py_repr :: "json \<Rightarrow> string"

fun py_str :: "world \<Rightarrow> json \<Rightarrow> string" where
  "py_str w (JStr s) = s"
| "py_str w JNull = ''None''"
| "py_str w (JBool b) = (if b then ''True'' else ''False'')"
| "py_str w (JInt i) = str_int i"
| "py_str w v = py_repr w v"

definition us_per_day :: int where
  "us_per_day = 86400000000"

subsection \<open>The user entity\<close>

definition ACTIVE :: string where "ACTIVE = ''ACTIVE''"
definition SUSPENDED :: string where "SUSPENDED = ''SUSPENDED''"
definition PROVISIONED :: string where "PROVISIONED = ''PROVISIONED''"
definition STAGED :: string where "STAGED = ''STAGED''"
definition DEPROVISIONED :: string where "DEPROVISIONED = ''DEPROVISIONED''"
definition EXIT :: string where "EXIT = ''EXIT''"

text \<open>
  The dataclass \<^verbatim>\<open>IGAUser\<close>. The annotations of the source are not enforced by Python:
  a field holds whatever the raw record held. \<open>status\<close> is always built by the code as a
  string. The field \<^verbatim>\<open>id\<close> is called \<open>user_id\<close>, after the local the code fills it with.
\<close>

record IGAUser =
  user_id :: json
  email :: json
  username :: json
  first_name :: json
  last_name :: json
  display_name :: json
  status :: string
  department :: json
  job_title :: json
  manager_id :: json
  manager_email :: json
  phone_number :: json
  employee_id :: json
  created_date :: json
  last_login :: json
  last_updated :: json
  groups :: "json list"
  attributes :: json
  risk_score :: int

text \<open>
  \<^verbatim>\<open>__post_init__\<close>: \<open>groups\<close> and \<open>attributes\<close> are never \<^verbatim>\<open>None\<close> when the normaliser
  builds the user, so only the third test can fire.
\<close>

definition post_init :: "world \<Rightarrow> IGAUser \<Rightarrow> IGAUser" where
  "post_init w u =
     (if \<not> truthy (display_name u)
      then u\<lparr>display_name :=
               JStr (strip (py_str w (first_name u) @ '' '' @ py_str w (last_name u)))\<rparr>
      else u)"

subsection \<open>The risk scorer\<close>

definition admin_keywords :: "string list" where
  "admin_keywords = [''admin'', ''administrator'', ''root'', ''superuser'', ''privileged'']"

definition matches_any :: "string list \<Rightarrow> string \<Rightarrow> bool" where
  "matches_any keywords g = list_ex (\<lambda>keyword. contains keyword (lower g)) keywords"

text \<open>
  \<^verbatim>\<open>[g for g in groups if any(keyword in g.lower() for keyword in admin_keywords)]\<close>:
  \<^verbatim>\<open>g.lower()\<close> raises \<^verbatim>\<open>AttributeError\<close> on the first element that is not a string.
\<close>

fun admin_groups :: "json list \<Rightarrow> error + json list" where
  "admin_groups [] = Inr []"
| "admin_groups (g # gs) =
     (case g of
        JStr s \<Rightarrow>
          (case admin_groups gs of
             Inl e \<Rightarrow> Inl e
           | Inr r \<Rightarrow> Inr (if matches_any admin_keywords s then g # r else r))
      | _ \<Rightarrow> Inl AttributeError)"

definition status_risk :: "string \<Rightarrow> int" where
  "status_risk st =
     (if st = SUSPENDED then 20 else if st = DEPROVISIONED then 50 else 0)"

text \<open>
  The part of the score that comes from the last login, with the number of clock readings
  made so far: \<^verbatim>\<open>datetime.now()\<close> is called only after \<^verbatim>\<open>fromisoformat\<close> has returned.
  A value that is not a string has no \<^verbatim>\<open>replace\<close>: the \<^verbatim>\<open>AttributeError\<close> is caught,
  like the \<^verbatim>\<open>ValueError\<close> of the library.
\<close>

definition login_risk :: "world \<Rightarrow> nat \<Rightarrow> json \<Rightarrow> int \<times> nat" where
  "login_risk w tk ll =
     (if truthy ll then
        (case ll of
           JStr s \<Rightarrow>
             (case fromisoformat w (replace_Z s) of
                None \<Rightarrow> (10, tk)
              | Some login_date \<Rightarrow>
                  (let days_since_login = (clock w tk - login_date) div us_per_day
                   in (if days_since_login > 90 then 30
                       else if days_since_login > 30 then 15
                       else if days_since_login > 7 then 5
                       else 0, tk + 1)))
         | _ \<Rightarrow> (10, tk))
      else (25, tk))"

definition calculate_risk_score ::
  "world \<Rightarrow> nat \<Rightarrow> string \<Rightarrow> json \<Rightarrow> json list \<Rightarrow> (error + int) \<times> nat" where
  "calculate_risk_score w tk st ll gs =
     (let risk_score = status_risk st;
          (r, tk') = login_risk w tk ll;
          risk_score = risk_score + r
      in case admin_groups gs of
           Inl e \<Rightarrow> (Inl e, tk')
         | Inr ag \<Rightarrow> (Inr (min (risk_score + int (length ag) * 10) 100), tk'))"

subsection \<open>The record normaliser\<close>

definition group_name :: "world \<Rightarrow> json \<Rightarrow> json" where
  "group_name w g = (case g of JObj gd \<Rightarrow> get_default gd ''name'' g | _ \<Rightarrow> JStr (py_str w g))"

definition parse_groups :: "world \<Rightarrow> (string \<times> json) list \<Rightarrow> json list" where
  "parse_groups w d =
     (case map_of d ''groups'' of
        Some (JList gs) \<Rightarrow> map (group_name w) gs
      | _ \<Rightarrow> [])"

definition parse_status :: "world \<Rightarrow> (string \<times> json) list \<Rightarrow> string" where
  "parse_status w d =
     (let status_raw = get_default d ''activated''
                         (get_default d ''suspended'' (get_default d ''status'' (JStr ''UNKNOWN'')))
      in case status_raw of
           JBool b \<Rightarrow> (if b then ACTIVE else SUSPENDED)
         | _ \<Rightarrow> upper (py_str w status_raw))"

text \<open>
  \<^verbatim>\<open>_parse_user_data\<close>. A raw record that is not a dict has no \<^verbatim>\<open>get\<close>; the handler
  of the source logs and raises the exception again.
\<close>

definition parse_user_data :: "world \<Rightarrow> nat \<Rightarrow> json \<Rightarrow> (error + IGAUser) \<times> nat" where
  "parse_user_data w tk user_data =
     (case user_data of
        JObj d \<Rightarrow>
          (let uid = py_or (get d ''_id'') (py_or (get d ''id'') (get_default d ''userId'' (JStr '''')));
               mail = get_default d ''email'' (JStr '''');
               uname = py_or (get d ''username'') (py_or (get d ''login'') mail);
               first = py_or (get d ''firstname'')
                         (py_or (get d ''firstName'') (get_default d ''given_name'' (JStr '''')));
               last = py_or (get d ''lastname'')
                        (py_or (get d ''lastName'') (get_default d ''family_name'' (JStr '''')));
               display = py_or (get d ''displayname'')
                           (py_or (get d ''displayName'')
                              (JStr (strip (py_str w first @ '' '' @ py_str w last))));
               st = parse_status w d;
               dept = py_or (get d ''department'') (get_default d ''organization'' (JStr ''''));
               title = py_or (get d ''jobTitle'') (get_default d ''title'' (JStr ''''));
               emp = py_or (get d ''employeeIdentifier'') (get_default d ''employeeNumber'' (JStr ''''));
               phone = py_or (get d ''phoneNumber'') (get_default d ''mobilePhone'' (JStr ''''));
               created = py_or (get d ''created'') (get d ''createdAt'');
               ll = py_or (get d ''lastLogin'') (get d ''lastSignIn'');
               updated = py_or (get d ''updated'') (get d ''lastUpdated'');
               gs = parse_groups w d
           in case calculate_risk_score w tk st ll gs of
                (Inl e, tk') \<Rightarrow> (Inl e, tk')
              | (Inr risk, tk') \<Rightarrow>
                  (Inr (post_init w
                     \<lparr>user_id = uid, email = mail, username = uname,
                      first_name = first, last_name = last, display_name = display,
                      status = st, department = dept, job_title = title,
                      manager_id = JNull, manager_email = JNull,
                      phone_number = phone, employee_id = emp,
                      created_date = created, last_login = ll, last_updated = updated,
                      groups = gs, attributes = user_data, risk_score = risk\<rparr>), tk'))
      | _ \<Rightarrow> (Inl AttributeError, tk))"

subsection \<open>Configuration, run state and the network\<close>

text \<open>
  The fields of \<^verbatim>\<open>IGAConfig\<close> that the retrieval code reads after the session is built.
  \<^verbatim>\<open>RATE_LIMIT_DELAY\<close> is a float: the rational number it denotes.
\<close>

record config =
  MAX_RETRIES :: int
  RETRY_DELAY :: int
  PAGE_SIZE :: int
  RATE_LIMIT_DELAY :: rat

text \<open>
  What the code observes of the \<^verbatim>\<open>Retry-After\<close> header through
  \<^verbatim>\<open>int(response.headers.get('Retry-After', RETRY_DELAY))\<close>: the header is absent, or
  \<^verbatim>\<open>int\<close> raises \<^verbatim>\<open>ValueError\<close> on it, or it denotes a number of seconds.
\<close>

datatype retry_after = Absent | Malformed | Seconds int

text \<open>
  One call of \<^verbatim>\<open>session.get\<close>: it raises \<^verbatim>\<open>Timeout\<close>, or another
  \<^verbatim>\<open>RequestException\<close> (a connection error), or it returns a response with a status
  code, the header above and a body, \<open>None\<close> when the body is not JSON.
\<close>

datatype outcome =
    RaisesTimeout
  | RaisesConnectionError
  | Response nat retry_after "json option"

text \<open>
  The lines \<^verbatim>\<open>_log_sync_summary\<close> writes: the counters and the duration (total users,
  active, suspended, API calls, rate limited, errors, duration in microseconds), then the
  throughput line.
\<close>

datatype log_event =
    Summary nat nat nat nat nat nat int
  | Throughput

text \<open>
  The retriever: \<^verbatim>\<open>self.users\<close> and \<^verbatim>\<open>self.sync_stats\<close>, and what the run does to its
  surroundings. \<open>net\<close> holds the outcomes of the calls of \<^verbatim>\<open>session.get\<close> still to
  come, in order; \<open>sent\<close> the cursor of every request made; \<open>ticks\<close> counts the clock
  readings; \<open>sleeps\<close> the arguments of \<^verbatim>\<open>time.sleep\<close>; \<open>logged\<close> the summary lines.
\<close>

record state =
  users :: "IGAUser list"
  start_time :: "int option"
  end_time :: "int option"
  total_users :: nat
  active_users :: nat
  suspended_users :: nat
  api_calls :: nat
  errors :: nat
  rate_limited :: nat
  net :: "outcome list"
  sent :: "json option list"
  ticks :: nat
  sleeps :: "rat list"
  logged :: "log_event list"

text \<open>
  \<^verbatim>\<open>time.sleep\<close> first converts its argument to a number of nanoseconds held in a
  signed 64-bit integer and raises \<^verbatim>\<open>OverflowError\<close> when it does not fit (from about
  9.22e9 seconds on, in either direction); then it raises \<^verbatim>\<open>ValueError\<close> on a
  negative length. The length is a rational number: an \<^verbatim>\<open>int\<close>, or the number a
  \<^verbatim>\<open>float\<close> denotes, whose product with \<open>10\<^sup>9\<close> is taken exactly.
\<close>

definition sleep_min_ns :: int where
  "sleep_min_ns = - (2 ^ 63)"

definition sleep_max_ns :: int where
  "sleep_max_ns = 2 ^ 63 - 1"

definition sleep :: "rat \<Rightarrow> state \<Rightarrow> error + state" where
  "sleep d s =
     (if d * 1000000000 < of_int sleep_min_ns \<or> of_int sleep_max_ns < d * 1000000000
      then Inl OverflowError
      else if d < 0 then Inl ValueError
      else Inr (s\<lparr>sleeps := sleeps s @ [d]\<rparr>))"

subsection \<open>The transport client\<close>

text \<open>How one iteration of \<^verbatim>\<open>for attempt in range(MAX_RETRIES)\<close> ends.\<close>

datatype iteration =
    Returns json state
  | Raises error state
  | Continues state

text \<open>
  The two \<^verbatim>\<open>except\<close> clauses of \<^verbatim>\<open>_make_request\<close> have the same body: on the last
  attempt count one error and raise again, otherwise sleep and go on.
\<close>

definition on_failure :: "config \<Rightarrow> error \<Rightarrow> nat \<Rightarrow> state \<Rightarrow> iteration" where
  "on_failure cfg e attempt s =
     (if int attempt = MAX_RETRIES cfg - 1 then Raises e (s\<lparr>errors := errors s + 1\<rparr>)
      else case sleep (of_int (RETRY_DELAY cfg * (int attempt + 1))) s of
             Inl e' \<Rightarrow> Raises e' s
           | Inr s' \<Rightarrow> Continues s')"

definition on_rate_limit :: "config \<Rightarrow> retry_after \<Rightarrow> state \<Rightarrow> iteration" where
  "on_rate_limit cfg ra s0 =
     (let s = s0\<lparr>rate_limited := rate_limited s0 + 1\<rparr>
      in case ra of
           Malformed \<Rightarrow> Raises ValueError s
         | Absent \<Rightarrow>
             (case sleep (of_int (RETRY_DELAY cfg)) s of
                Inl e \<Rightarrow> Raises e s | Inr s' \<Rightarrow> Continues s')
         | Seconds n \<Rightarrow>
             (case sleep (of_int n) s of
                Inl e \<Rightarrow> Raises e s | Inr s' \<Rightarrow> Continues s'))"

definition on_success :: "config \<Rightarrow> nat \<Rightarrow> json option \<Rightarrow> state \<Rightarrow> iteration" where
  "on_success cfg attempt body s =
     (case (if RATE_LIMIT_DELAY cfg > 0 then sleep (RATE_LIMIT_DELAY cfg) s else Inr s) of
        Inl e \<Rightarrow> Raises e s
      | Inr s' \<Rightarrow>
          (case body of
             None \<Rightarrow> on_failure cfg JSONDecodeError attempt s'
           | Some response_data \<Rightarrow> Returns response_data s'))"

text \<open>
  The body of the loop. \<open>None\<close>: the program waits for an answer that \<open>net\<close> does not
  hold. \<^verbatim>\<open>raise_for_status\<close> raises \<^verbatim>\<open>HTTPError\<close> on a status from 400 to 599, and
  \<^verbatim>\<open>response.json()\<close> raises a \<^verbatim>\<open>JSONDecodeError\<close> that derives from
  \<^verbatim>\<open>RequestException\<close>; the second \<^verbatim>\<open>except\<close> clause catches both.
\<close>

definition attempt_body :: "config \<Rightarrow> json option \<Rightarrow> nat \<Rightarrow> state \<Rightarrow> iteration option" where
  "attempt_body cfg cursor attempt s0 =
     (let s = s0\<lparr>api_calls := api_calls s0 + 1\<rparr>
      in case net s of
           [] \<Rightarrow> None
         | out # rest \<Rightarrow>
             (let s = s\<lparr>net := rest, sent := sent s @ [cursor]\<rparr>
              in Some (case out of
                   RaisesTimeout \<Rightarrow> on_failure cfg Timeout attempt s
                 | RaisesConnectionError \<Rightarrow> on_failure cfg ConnectionError attempt s
                 | Response code ra body \<Rightarrow>
                     (if code = 429 then on_rate_limit cfg ra s
                      else if 400 \<le> code \<and> code < 600 then on_failure cfg (HTTPError code) attempt s
                      else on_success cfg attempt body s))))"

fun attempts :: "config \<Rightarrow> json option \<Rightarrow> nat list \<Rightarrow> state \<Rightarrow> ((error + json) \<times> state) option" where
  "attempts cfg cursor [] s = Some (Inl RetriesExhausted, s)"
| "attempts cfg cursor (attempt # later) s =
     (case attempt_body cfg cursor attempt s of
        None \<Rightarrow> None
      | Some (Returns response_data s') \<Rightarrow> Some (Inr response_data, s')
      | Some (Raises e s') \<Rightarrow> Some (Inl e, s')
      | Some (Continues s') \<Rightarrow> attempts cfg cursor later s')"

text \<open>\<^verbatim>\<open>_make_request('systemusers', params)\<close>, with the cursor parameter of the request.\<close>

definition make_request :: "config \<Rightarrow> json option \<Rightarrow> state \<Rightarrow> ((error + json) \<times> state) option" where
  "make_request cfg cursor s = attempts cfg cursor [0..<nat (MAX_RETRIES cfg)] s"

subsection \<open>The retrieval orchestrator\<close>



text \<open>
  The body of the inner \<^verbatim>\<open>for\<close> loop: whatever the normaliser raises is caught, counted
  and the record skipped.
\<close>

definition process_user :: "world \<Rightarrow> json \<Rightarrow> state \<Rightarrow> state" where
  "process_user w user_data s =
     (case parse_user_data w (ticks s) user_data of
        (Inl e, tk) \<Rightarrow> s\<lparr>ticks := tk, errors := errors s + 1\<rparr>
      | (Inr user, tk) \<Rightarrow>
          (let s' = s\<lparr>ticks := tk, users := users s @ [user]\<rparr>
           in if status user = ACTIVE then s'\<lparr>active_users := active_users s' + 1\<rparr>
              else if List.member [SUSPENDED, DEPROVISIONED] (status user)
                   then s'\<lparr>suspended_users := suspended_users s' + 1\<rparr>
              else s'))"

fun process_users :: "world \<Rightarrow> json list \<Rightarrow> state \<Rightarrow> state" where
  "process_users w [] s = s"
| "process_users w (user_data # rest) s = process_users w rest (process_user w user_data s)"











subsection \<open>The query helper for privileged users\<close>

definition privileged_keywords :: "string list" where
  "privileged_keywords =
     [''admin'', ''administrator'', ''root'', ''superuser'', ''privileged'', ''sudo'']"

text \<open>
  The inner loop \<^verbatim>\<open>for group in user.groups\<close> with its \<^verbatim>\<open>break\<close>: whether the user is
  appended. \<^verbatim>\<open>group.lower()\<close> raises on a group that is not a string, if the loop
  reaches it.
\<close>

fun has_privileged_group :: "json list \<Rightarrow> error + bool" where
  "has_privileged_group [] = Inr False"
| "has_privileged_group (g # gs) =
     (case g of
        JStr s \<Rightarrow> (if matches_any privileged_keywords s then Inr True
                   else has_privileged_group gs)
      | _ \<Rightarrow> Inl AttributeError)"

fun privileged_loop :: "IGAUser list \<Rightarrow> IGAUser list \<Rightarrow> error + IGAUser list" where
  "privileged_loop [] privileged_users = Inr privileged_users"
| "privileged_loop (user # rest) privileged_users =
     (case has_privileged_group (groups user) of
        Inl e \<Rightarrow> Inl e
      | Inr b \<Rightarrow> privileged_loop rest (if b then privileged_users @ [user] else privileged_users))"

definition get_privileged_users :: "state \<Rightarrow> error + IGAUser list" where
  "get_privileged_users s = privileged_loop (users s) []"

subsection \<open>Concrete inputs\<close>

text \<open>The defaults of \<^verbatim>\<open>IGAConfig\<close> and the retriever as \<^verbatim>\<open>__init__\<close> leaves it.\<close>

definition default_config :: config where
  "default_config = \<lparr>MAX_RETRIES = 3, RETRY_DELAY = 2, PAGE_SIZE = 100, RATE_LIMIT_DELAY = 1 / 2\<rparr>"

definition init_state :: "outcome list \<Rightarrow> state" where
  "init_state answers =
     \<lparr>users = [], start_time = None, end_time = None, total_users = 0, active_users = 0,
      suspended_users = 0, api_calls = 0, errors = 0, rate_limited = 0,
      net = answers, sent = [], ticks = 0, sleeps = [], logged = []\<rparr>"

text \<open>
  A world in which the one timestamp the examples use parses to time 0 and every clock
  reading falls on day \<open>day\<close> after it, one microsecond apart.
\<close>

definition world_on_day :: "int \<Rightarrow> world" where
  "world_on_day day =
     \<lparr>fromisoformat = (\<lambda>s. if s = ''2024-01-01T00:00:00+00:00'' then Some 0 else None),
      clock = (\<lambda>n. day * us_per_day + int n),
      py_repr = (\<lambda>v. ''?'')\<rparr>"

text \<open>
  Scenario B of the specification: \<^verbatim>\<open>suspended: true\<close>, no \<^verbatim>\<open>activated\<close> key, a last
  login (under the key \<^verbatim>\<open>lastLogin\<close> that the normaliser reads) and one group.
\<close>

definition scenario_B :: json where
  "scenario_B =
     JObj [(''id'', JStr ''1''), (''email'', JStr ''a@x.com''), (''firstname'', JStr ''A''),
           (''lastname'', JStr ''B''), (''suspended'', JBool True),
           (''lastLogin'', JStr ''2024-01-01T00:00:00Z''),
           (''groups'', JList [JStr ''Org-Admins''])]"

text \<open>
  A length that \<^verbatim>\<open>time.sleep\<close> accepts: not negative and at most \<open>2\<^sup>6\<^sup>3 - 1\<close>
  nanoseconds.
\<close>

definition sleep_accepted :: "rat \<Rightarrow> bool" where
  "sleep_accepted d \<longleftrightarrow> 0 \<le> d \<and> d * 1000000000 \<le> of_int sleep_max_ns"





text \<open>A JSON value that is a Python \<^verbatim>\<open>str\<close>.\<close>

fun is_str :: "json \<Rightarrow> bool" where
  "is_str (JStr s) = True"
| "is_str v = False"

text \<open>
  A user one of whose groups is a string that holds one of the keywords of
  \<^verbatim>\<open>get_privileged_users\<close>.
\<close>

definition is_privileged :: "IGAUser \<Rightarrow> bool" where
  "is_privileged u =
     list_ex (\<lambda>g. case g of JStr name \<Rightarrow> matches_any privileged_keywords name | _ \<Rightarrow> False)
       (groups u)"

text \<open>Two raw records: one with a mapping, a number and a string as groups, one plain.\<close>

definition mixed_groups_record :: "(string \<times> json) list" where
  "mixed_groups_record =
     [(''id'', JStr ''2''), (''email'', JStr ''b@x.com''),
      (''groups'', JList [JObj [(''name'', JStr ''Root-Ops''), (''id'', JInt 9)], JInt 7,
                          JStr ''sales-admins''])]"

definition plain_record :: "(string \<times> json) list" where
  "plain_record =
     [(''id'', JStr ''3''), (''email'', JStr ''c@x.com''), (''groups'', JList [JStr ''sales''])]"














section \<open>Properties\<close>

subsection \<open>The risk score stays between 0 and 100\<close>

lemma login_risk_bounds: "0 \<le> fst (login_risk w tk ll) \<and> fst (login_risk w tk ll) \<le> 30"
  by (simp add: login_risk_def Let_def split: json.splits option.splits)

lemma status_risk_bounds: "0 \<le> status_risk st \<and> status_risk st \<le> 50"
  by (simp add: status_risk_def)

lemma calculate_risk_score_bounds:
  assumes "calculate_risk_score w tk st ll gs = (Inr n, tk')"
  shows "0 \<le> n \<and> n \<le> 100"
proof (cases "admin_groups gs")
  case (Inl e)
  with assms show ?thesis
    by (simp add: calculate_risk_score_def Let_def split: prod.splits)
next
  case (Inr ag)
  with assms have "n = min (status_risk st + fst (login_risk w tk ll) + int (length ag) * 10) 100"
    by (auto simp: calculate_risk_score_def Let_def split: prod.splits)
  with login_risk_bounds [of w tk ll] status_risk_bounds [of st] show ?thesis
    by simp
qed

lemma risk_score_post_init: "risk_score (post_init w u) = risk_score u"
  by (simp add: post_init_def)

lemma scenario_B_parses:
  "case parse_user_data (world_on_day 100) 0 scenario_B of
     (Inr u, tk) \<Rightarrow> True | (Inl e, tk) \<Rightarrow> False"
  by code_simp

text \<open>
  C3. Whatever the raw record holds, the risk score of the user the normaliser returns is
  at least 0 and at most 100.
\<close>

theorem risk_score_in_range:
  "parse_user_data w tk user_data = (Inr u, tk') \<Longrightarrow> 0 \<le> risk_score u \<and> risk_score u \<le> 100"
  by (auto simp: parse_user_data_def Let_def risk_score_post_init
           split: json.splits prod.splits sum.splits dest: calculate_risk_score_bounds)

theorem risk_score_in_range_witness:
  "\<exists>u tk'. parse_user_data (world_on_day 100) 0 scenario_B = (Inr u, tk')
           \<and> 0 \<le> risk_score u \<and> risk_score u \<le> 100"
proof -
  from scenario_B_parses obtain u tk'
    where p: "parse_user_data (world_on_day 100) 0 scenario_B = (Inr u, tk')"
    by (auto split: prod.splits sum.splits)
  from risk_score_in_range [OF p] p show ?thesis by blast
qed

subsection \<open>Scenario B: a record with \<^verbatim>\<open>suspended: true\<close>\<close>

text \<open>
  The status is read from \<^verbatim>\<open>activated\<close>, else \<^verbatim>\<open>suspended\<close>, else \<^verbatim>\<open>status\<close>, and a
  boolean found there is mapped as if it were \<^verbatim>\<open>activated\<close>: a record without
  \<^verbatim>\<open>activated\<close> and with \<^verbatim>\<open>suspended: true\<close> gets the status ACTIVE.
\<close>

lemma suspended_true_is_active:
  "map_of d ''activated'' = None \<Longrightarrow> map_of d ''suspended'' = Some (JBool True)
     \<Longrightarrow> parse_status w d = ACTIVE"
  by (simp add: parse_status_def get_default_def)

text \<open>
  C1. The record of scenario B, normalised one hundred days after its last login: the
  specification expects the score 60 (20 for SUSPENDED, 30 for the login, 10 for the group);
  the normaliser returns the status ACTIVE and the score 40.
\<close>

theorem scenario_B_risk_score:
  "case parse_user_data (world_on_day 100) 0 scenario_B of
     (Inr u, tk) \<Rightarrow> status u = ACTIVE \<and> risk_score u = 40
   | (Inl e, tk) \<Rightarrow> False"
  by code_simp

subsection \<open>Lengths that \<^verbatim>\<open>time.sleep\<close> accepts\<close>

lemma sleep_returns: "sleep_accepted d \<Longrightarrow> sleep d s = Inr (s\<lparr>sleeps := sleeps s @ [d]\<rparr>)"
proof -
  assume a: "sleep_accepted d"
  then have "0 \<le> d * 1000000000" by (simp add: sleep_accepted_def)
  moreover have "(of_int sleep_min_ns :: rat) < 0" by (simp add: sleep_min_ns_def)
  ultimately have "\<not> d * 1000000000 < of_int sleep_min_ns" by linarith
  with a show ?thesis by (simp add: sleep_def sleep_accepted_def)
qed


subsection \<open>Timeouts and the retry budget\<close>

lemma upt_3: "[0..<3::nat] = [0, 1, 2]"
  by code_simp

lemma timed_out_attempt:
  assumes "net s = RaisesTimeout # rest" and "int a \<noteq> MAX_RETRIES cfg - 1"
    and "sleep_accepted (of_int (RETRY_DELAY cfg * (int a + 1)))"
  shows "attempt_body cfg cur a s =
           Some (Continues (s\<lparr>api_calls := api_calls s + 1, net := rest, sent := sent s @ [cur],
                               sleeps := sleeps s @ [of_int (RETRY_DELAY cfg * (int a + 1))]\<rparr>))"
  using assms(1,2) sleep_returns [OF assms(3)]
  by (simp add: attempt_body_def on_failure_def Let_def)

lemma last_timed_out_attempt:
  assumes "net s = RaisesTimeout # rest" and "int a = MAX_RETRIES cfg - 1"
  shows "attempt_body cfg cur a s =
           Some (Raises Timeout (s\<lparr>api_calls := api_calls s + 1, net := rest,
                                     sent := sent s @ [cur], errors := errors s + 1\<rparr>))"
  using assms
  by (simp add: attempt_body_def on_failure_def Let_def)

text \<open>
  C6. With \<^verbatim>\<open>MAX_RETRIES = 3\<close>, three calls of \<^verbatim>\<open>session.get\<close> that all raise
  \<^verbatim>\<open>Timeout\<close> make \<^verbatim>\<open>_make_request\<close> raise that exception, a
  \<^verbatim>\<open>RequestException\<close>, with the error counter one higher and the API-call counter three
  higher. Three attempts are made only when \<^verbatim>\<open>time.sleep\<close> accepts the two delays
  between them, \<^verbatim>\<open>RETRY_DELAY\<close> and \<^verbatim>\<open>RETRY_DELAY * 2\<close>: on a negative or too large
  delay it raises after the first timeout and no second attempt is made.
\<close>

theorem three_timeouts:
  assumes "MAX_RETRIES cfg = 3"
    and "sleep_accepted (of_int (RETRY_DELAY cfg))"
    and "sleep_accepted (of_int (RETRY_DELAY cfg * 2))"
    and "net s = RaisesTimeout # RaisesTimeout # RaisesTimeout # rest"
  shows "\<exists>s'. make_request cfg cursor s = Some (Inl Timeout, s')
              \<and> is_request_exception Timeout
              \<and> errors s' = errors s + 1 \<and> api_calls s' = api_calls s + 3
              \<and> rate_limited s' = rate_limited s \<and> net s' = rest
              \<and> sleeps s' = sleeps s @ [of_int (RETRY_DELAY cfg), of_int (RETRY_DELAY cfg * 2)]"
proof -
  define s1 where "s1 = s\<lparr>api_calls := api_calls s + 1,
                          net := RaisesTimeout # RaisesTimeout # rest, sent := sent s @ [cursor],
                          sleeps := sleeps s @ [of_int (RETRY_DELAY cfg * (int 0 + 1))]\<rparr>"
  define s2 where "s2 = s1\<lparr>api_calls := api_calls s1 + 1,
                          net := RaisesTimeout # rest, sent := sent s1 @ [cursor],
                          sleeps := sleeps s1 @ [of_int (RETRY_DELAY cfg * (int 1 + 1))]\<rparr>"
  define s3 where "s3 = s2\<lparr>api_calls := api_calls s2 + 1, net := rest,
                          sent := sent s2 @ [cursor], errors := errors s2 + 1\<rparr>"
  have a0: "attempt_body cfg cursor 0 s = Some (Continues s1)"
    using timed_out_attempt [of s "RaisesTimeout # RaisesTimeout # rest" 0 cfg cursor] assms
    by (simp add: s1_def)
  have n1: "net s1 = RaisesTimeout # RaisesTimeout # rest" by (simp add: s1_def)
  have a1: "attempt_body cfg cursor (Suc 0) s1 = Some (Continues s2)"
    using timed_out_attempt [of s1 "RaisesTimeout # rest" "Suc 0" cfg cursor] assms n1
    by (simp add: s2_def)
  have n2: "net s2 = RaisesTimeout # rest" by (simp add: s2_def)
  have a2: "attempt_body cfg cursor 2 s2 = Some (Raises Timeout s3)"
    using last_timed_out_attempt [of s2 rest 2 cfg cursor] assms n2
    by (simp add: s3_def)
  from assms(1) have "make_request cfg cursor s = Some (Inl Timeout, s3)"
    by (simp add: make_request_def upt_3 a0 a1 a2)
  then show ?thesis
    by (simp add: s3_def s2_def s1_def)
qed

theorem three_timeouts_witness:
  "\<exists>s'. make_request default_config None (init_state [RaisesTimeout, RaisesTimeout, RaisesTimeout])
           = Some (Inl Timeout, s')
        \<and> errors s' = 1 \<and> api_calls s' = 3 \<and> rate_limited s' = 0 \<and> sleeps s' = [2, 4]"
proof -
  have a: "MAX_RETRIES default_config = 3"
    by (simp add: default_config_def)
  have b: "sleep_accepted (of_int (RETRY_DELAY default_config))"
    and b': "sleep_accepted (of_int (RETRY_DELAY default_config * 2))"
    by (simp_all add: default_config_def sleep_accepted_def sleep_max_ns_def)
  have c: "net (init_state [RaisesTimeout, RaisesTimeout, RaisesTimeout])
             = RaisesTimeout # RaisesTimeout # RaisesTimeout # []"
    by (simp add: init_state_def)
  from three_timeouts [OF a b b' c, of None] show ?thesis
    by (auto simp: init_state_def default_config_def)
qed

subsection \<open>Rate limiting and the retry budget\<close>











subsection \<open>The groups of a normalised user\<close>















subsection \<open>Privileged users\<close>

lemma has_privileged_group_eq:
  "has_privileged_group gs = Inr b \<Longrightarrow>
     b = list_ex (\<lambda>g. case g of JStr name \<Rightarrow> matches_any privileged_keywords name | _ \<Rightarrow> False) gs"
  by (induction gs) (auto split: json.splits if_splits)

lemma privileged_loop_filter:
  "privileged_loop us acc = Inr res \<Longrightarrow> res = acc @ filter is_privileged us"
proof (induction us arbitrary: acc)
  case Nil
  then show ?case by simp
next
  case (Cons u us)
  from Cons.prems obtain b where b: "has_privileged_group (groups u) = Inr b"
    and r: "privileged_loop us (if b then acc @ [u] else acc) = Inr res"
    by (auto split: sum.splits)
  from has_privileged_group_eq [OF b] have "b = is_privileged u"
    by (simp add: is_privileged_def)
  with Cons.IH [OF r] show ?case by simp
qed

lemma has_privileged_group_total:
  "list_all is_str gs \<Longrightarrow> \<exists>b. has_privileged_group gs = Inr b"
  by (induction gs) (auto split: json.splits)

lemma privileged_loop_total:
  "list_all (\<lambda>u. list_all is_str (groups u)) us \<Longrightarrow> \<exists>res. privileged_loop us acc = Inr res"
proof (induction us arbitrary: acc)
  case Nil
  then show ?case by simp
next
  case (Cons u us)
  then obtain b where "has_privileged_group (groups u) = Inr b"
    using has_privileged_group_total [of "groups u"] by auto
  with Cons show ?case by simp
qed

text \<open>
  C10. What \<^verbatim>\<open>get_privileged_users\<close> returns is the list of accumulated users filtered
  by \<open>is_privileged\<close>: every entry of \<^verbatim>\<open>self.users\<close> with a matching group occurs in
  the result as often as in \<^verbatim>\<open>self.users\<close>, however many of its groups match, no other
  user occurs, and every returned user has a matching group.
\<close>

theorem privileged_users_once:
  assumes "get_privileged_users s = Inr res"
  shows "res = filter is_privileged (users s)
       \<and> (\<forall>u. count_list res u = (if is_privileged u then count_list (users s) u else 0))
       \<and> (\<forall>u \<in> set res. \<exists>name. JStr name \<in> set (groups u)
                             \<and> matches_any privileged_keywords name)"
proof -
  from assms have r: "res = filter is_privileged (users s)"
    by (auto simp: get_privileged_users_def dest: privileged_loop_filter)
  have c: "count_list (filter P xs) x = (if P x then count_list xs x else 0)" for P xs and x :: IGAUser
    by (induction xs) auto
  have m: "is_privileged u \<Longrightarrow> \<exists>name. JStr name \<in> set (groups u)
                             \<and> matches_any privileged_keywords name" for u
  proof -
    assume "is_privileged u"
    then obtain g where g: "g \<in> set (groups u)"
      and k: "case g of JStr name \<Rightarrow> matches_any privileged_keywords name | _ \<Rightarrow> False"
      by (auto simp: is_privileged_def list_ex_iff)
    from k have "\<exists>name. g = JStr name \<and> matches_any privileged_keywords name"
      by (simp split: json.splits)
    with g show ?thesis by auto
  qed
  from r c m show ?thesis by auto
qed

lemma two_users_privileged:
  "case get_privileged_users
          (process_users (world_on_day 100) [JObj mixed_groups_record, JObj plain_record]
             (init_state []))
   of Inr res \<Rightarrow> map user_id res = [JStr ''2''] | Inl e \<Rightarrow> False"
  by code_simp

theorem privileged_users_once_witness:
  "\<exists>res. get_privileged_users
            (process_users (world_on_day 100) [JObj mixed_groups_record, JObj plain_record]
               (init_state [])) = Inr res
     \<and> map user_id res = [JStr ''2'']
     \<and> res = filter is_privileged
         (users (process_users (world_on_day 100) [JObj mixed_groups_record, JObj plain_record]
            (init_state [])))"
proof -
  from two_users_privileged obtain res
    where r: "get_privileged_users
            (process_users (world_on_day 100) [JObj mixed_groups_record, JObj plain_record]
               (init_state [])) = Inr res"
      and m: "map user_id res = [JStr ''2'']"
    by (auto split: sum.splits)
  from privileged_users_once [OF r] have f: "res = filter is_privileged
         (users (process_users (world_on_day 100) [JObj mixed_groups_record, JObj plain_record]
            (init_state [])))"
    by (rule conjunct1)
  from r m f show ?thesis by (intro exI [of _ res] conjI)
qed

subsection \<open>Normalisation and the clock\<close>

lemma py_str_cong: "py_repr w = py_repr w' \<Longrightarrow> py_str w v = py_str w' v"
  by (cases v) simp_all

lemma login_risk_cong:
  assumes "fromisoformat w = fromisoformat w'" and "clock w tk = clock w' tk'"
  shows "fst (login_risk w tk ll) = fst (login_risk w' tk' ll)"
  using assms by (simp add: login_risk_def Let_def split: json.splits option.splits)

lemma calculate_risk_score_cong:
  assumes "fromisoformat w = fromisoformat w'" and "clock w tk = clock w' tk'"
  shows "fst (calculate_risk_score w tk st ll gs) = fst (calculate_risk_score w' tk' st ll gs)"
  using login_risk_cong [OF assms, of ll]
  by (auto simp: calculate_risk_score_def Let_def split: prod.splits sum.splits)

text \<open>
  C7, as the specification states it, fails: the score depends on \<^verbatim>\<open>datetime.now()\<close>.
  The record of scenario B gets the score 40 when it is normalised one hundred days after
  its last login and the score 10 when it is normalised five days after it.
\<close>

theorem risk_score_changes_with_clock_counterexample:
  "map_sum id risk_score (fst (parse_user_data (world_on_day 100) 0 scenario_B)) = Inr 40
   \<and> map_sum id risk_score (fst (parse_user_data (world_on_day 5) 0 scenario_B)) = Inr 10"
  by code_simp

text \<open>
  C7, amended. Normalisation is a function of the raw record and of the clock reading the
  scorer takes: two normalisations of a record that read the same time (with the same
  library functions) give the same result, and so do two computations of the score from
  the same status, last login and groups.
\<close>

theorem normalisation_reads_clock:
  assumes f: "fromisoformat w = fromisoformat w'" and r: "py_repr w = py_repr w'"
    and c: "clock w tk = clock w' tk'"
  shows "fst (parse_user_data w tk user_data) = fst (parse_user_data w' tk' user_data)
       \<and> fst (calculate_risk_score w tk st ll gs) = fst (calculate_risk_score w' tk' st ll gs)"
proof -
  note s = py_str_cong [OF r]
  have gn: "group_name w = group_name w'"
    by (intro ext) (simp add: group_name_def r split: json.splits)
  have g: "parse_groups w = parse_groups w'"
    by (intro ext) (simp add: parse_groups_def gn split: option.splits json.splits)
  have t: "parse_status w = parse_status w'"
    by (intro ext) (simp add: parse_status_def Let_def r split: json.splits)
  have p: "post_init w = post_init w'"
    by (intro ext) (simp add: post_init_def s)
  have "fst (parse_user_data w tk user_data) = fst (parse_user_data w' tk' user_data)"
  proof (cases user_data)
    case (JObj d)
    from calculate_risk_score_cong [OF f c, of "parse_status w' d"
        "py_or (get d ''lastLogin'') (get d ''lastSignIn'')" "parse_groups w' d"]
    show ?thesis
      unfolding JObj
      by (auto simp: parse_user_data_def Let_def s g t p split: prod.splits sum.splits)
  qed (simp_all add: parse_user_data_def)
  with calculate_risk_score_cong [OF f c] show ?thesis by simp
qed

theorem normalisation_reads_clock_witness:
  "fst (parse_user_data (world_on_day 100) 1 scenario_B)
     = fst (parse_user_data ((world_on_day 100)\<lparr>clock := \<lambda>n. clock (world_on_day 100) 1\<rparr>) 7
              scenario_B)"
proof -
  have "clock (world_on_day 100) 1
          = clock ((world_on_day 100)\<lparr>clock := \<lambda>n. clock (world_on_day 100) 1\<rparr>) 7"
    by simp
  from normalisation_reads_clock [OF _ _ this, of scenario_B] show ?thesis
    by simp
qed

subsection \<open>What a request and a page leave unchanged\<close>








subsection \<open>Finalisation of the run\<close>






subsection \<open>The records of a page\<close>








subsection \<open>A sequence of pages\<close>

















subsection \<open>A bad record does not end the run\<close>








end
